theory Spec2Isabelle
  imports Complex_Main "HOL-Library.Mapping"
begin

section \<open>The OSM element classes of \<open>nestcollector/osm_elements.py\<close>\<close>

text \<open>
  The module defines three classes, \<open>Node\<close>, \<open>Way\<close> and \<open>Relation\<close>. Their instances are
  mutable objects that are shared through the lookup mappings handed to the geometry
  builders, and \<open>Relation.build_multipolygon\<close> writes the \<open>polygon\<close> attribute of the
  \<open>Way\<close> objects it finds there. The model therefore keeps the objects in a store indexed
  by object identity (an address); a lookup mapping sends an OSM identifier to the address
  of the object it holds, so that two keys, or two mappings, may hold the same object.
  Every address holds an object of one of the three classes: a Python reference never
  dangles.

  The coordinate type \<open>'c\<close> stands for Python's \<open>float\<close>: the module only moves latitude
  and longitude around and never computes with them. \<open>Polygon\<close> and \<open>MultiPolygon\<close> are
  classes of the \<open>shapely\<close> library, not of this module. Their constructors are parameters
  of the model: \<open>Polygon\<close> takes the coordinate sequence and \<open>MultiPolygon\<close> the polygon
  sequence, and each either yields a geometry (\<open>'p\<close>, \<open>'m\<close>) or raises a library
  exception \<open>'e\<close>.
\<close>

type_synonym addr = nat

type_synonym tags = "(string, string) mapping"

record 'c node =
  node_type :: string
  node_id :: int
  lat :: 'c
  lon :: 'c
  node_tags :: "tags option"

record 'p way =
  way_type :: string
  way_id :: int
  nodes :: "int list"
  way_tags :: "tags option"
  way_name :: "string option"
  polygon :: "'p option"

text \<open>
  A member descriptor of a relation is the member dictionary of an Overpass element,
  with its keys \<open>type\<close>, \<open>ref\<close> and \<open>role\<close>.
\<close>

record member =
  mtype :: string
  ref :: int
  role :: string

record 'm relation =
  rel_type :: string
  rel_id :: int
  members :: "member list"
  rel_tags :: "tags option"
  rel_name :: "string option"
  multipolygon :: "'m option"

datatype ('c, 'p, 'm) element =
  ENode "'c node"
| EWay "'p way"
| ERelation "'m relation"

type_synonym ('c, 'p, 'm) store = "addr \<Rightarrow> ('c, 'p, 'm) element"

text \<open>
  The exceptions the module's code can let escape: \<open>KeyError\<close> from a subscript on a
  lookup mapping (with the missing key), \<open>AttributeError\<close> from reading an attribute the
  object's class does not have (with the attribute's name), and whatever a \<open>shapely\<close>
  constructor raises.
\<close>

datatype 'e error =
  KeyError int
| AttributeError string
| Raised 'e

text \<open>
  A call of a library constructor, seen from the module: its value, or its exception
  passing through the caller.
\<close>

definition library_call :: "'e + 'a \<Rightarrow> 'e error + 'a" where
  "library_call r = (case r of Inl x \<Rightarrow> Inl (Raised x) | Inr v \<Rightarrow> Inr v)"

subsection \<open>Construction\<close>

text \<open>
  \<open>tags['name'] if tags and 'name' in tags else None\<close>: \<open>tags\<close> is \<open>None\<close> or a
  dictionary, and a dictionary is true when it is not empty.
\<close>

definition name_of_tags :: "tags option \<Rightarrow> string option" where
  "name_of_tags tags =
     (case tags of
        None \<Rightarrow> None
      | Some d \<Rightarrow>
          if \<not> Mapping.is_empty d \<and> Mapping.lookup d ''name'' \<noteq> None
          then Mapping.lookup d ''name''
          else None)"

definition Node_init :: "string \<Rightarrow> int \<Rightarrow> 'c \<Rightarrow> 'c \<Rightarrow> tags option \<Rightarrow> 'c node" where
  "Node_init type ident la lo tags =
     \<lparr>node_type = type, node_id = ident, lat = la, lon = lo, node_tags = tags\<rparr>"

definition Way_init :: "string \<Rightarrow> int \<Rightarrow> int list \<Rightarrow> tags option \<Rightarrow> 'p way" where
  "Way_init type ident ns tags =
     \<lparr>way_type = type, way_id = ident, nodes = ns, way_tags = tags,
      way_name = name_of_tags tags, polygon = None\<rparr>"

definition Relation_init :: "string \<Rightarrow> int \<Rightarrow> member list \<Rightarrow> tags option \<Rightarrow> 'm relation" where
  "Relation_init type ident ms tags =
     \<lparr>rel_type = type, rel_id = ident, members = ms, rel_tags = tags,
      rel_name = name_of_tags tags, multipolygon = None\<rparr>"

subsection \<open>Equality\<close>

text \<open>
  Each class defines \<open>__eq__\<close> as \<open>isinstance(other, C) and self.id == other.id\<close>.
  None of them returns \<open>NotImplemented\<close> and no class is a subclass of another, so
  \<open>p == q\<close> is the \<open>__eq__\<close> of the class of \<open>p\<close> applied to \<open>q\<close>.
\<close>

definition Node_eq :: "'c node \<Rightarrow> ('c, 'p, 'm) element \<Rightarrow> bool" where
  "Node_eq self other = (case other of ENode n \<Rightarrow> node_id self = node_id n | _ \<Rightarrow> False)"

definition Way_eq :: "'p way \<Rightarrow> ('c, 'p, 'm) element \<Rightarrow> bool" where
  "Way_eq self other = (case other of EWay w \<Rightarrow> way_id self = way_id w | _ \<Rightarrow> False)"

definition Relation_eq :: "'m relation \<Rightarrow> ('c, 'p, 'm) element \<Rightarrow> bool" where
  "Relation_eq self other =
     (case other of ERelation r \<Rightarrow> rel_id self = rel_id r | _ \<Rightarrow> False)"

definition element_eq :: "('c, 'p, 'm) element \<Rightarrow> ('c, 'p, 'm) element \<Rightarrow> bool" where
  "element_eq p q =
     (case p of
        ENode n \<Rightarrow> Node_eq n q
      | EWay w \<Rightarrow> Way_eq w q
      | ERelation r \<Rightarrow> Relation_eq r q)"

fun identity :: "('c, 'p, 'm) element \<Rightarrow> int" where
  "identity (ENode n) = node_id n"
| "identity (EWay w) = way_id w"
| "identity (ERelation r) = rel_id r"

fun class_name :: "('c, 'p, 'm) element \<Rightarrow> string" where
  "class_name (ENode n) = ''Node''"
| "class_name (EWay w) = ''Way''"
| "class_name (ERelation r) = ''Relation''"

subsection \<open>\<open>Way.build_polygon\<close>\<close>

text \<open>
  The list comprehension \<open>[(nodes[node].lat, nodes[node].lon) for node in self.nodes]\<close>
  evaluates its elements in order and stops at the first exception: \<open>nodes[node]\<close> raises
  \<open>KeyError\<close> for a key the mapping lacks, and \<open>.lat\<close> raises \<open>AttributeError\<close> on an object
  that is not a \<open>Node\<close> (neither \<open>Way\<close> nor \<open>Relation\<close> has that attribute).
\<close>

fun coordinates ::
  "('c, 'p, 'm) store \<Rightarrow> (int \<rightharpoonup> addr) \<Rightarrow> int list \<Rightarrow> 'e error + ('c \<times> 'c) list" where
  "coordinates h nodes_by_id [] = Inr []"
| "coordinates h nodes_by_id (n # ns) =
     (case nodes_by_id n of
        None \<Rightarrow> Inl (KeyError n)
      | Some a \<Rightarrow>
          (case h a of
             ENode p \<Rightarrow>
               (case coordinates h nodes_by_id ns of
                  Inl e \<Rightarrow> Inl e
                | Inr cs \<Rightarrow> Inr ((lat p, lon p) # cs))
           | _ \<Rightarrow> Inl (AttributeError ''lat'')))"

text \<open>
  \<open>build_polygon\<close> is called on the object at address \<open>self\<close>; it reads \<open>self.nodes\<close>,
  passes the coordinate list to \<open>Polygon\<close> and returns the result. It assigns to no
  attribute, so the store it returns is the store it was given.
\<close>

definition build_polygon ::
  "(('c \<times> 'c) list \<Rightarrow> 'e + 'p) \<Rightarrow> ('c, 'p, 'm) store \<Rightarrow> addr \<Rightarrow> (int \<rightharpoonup> addr)
     \<Rightarrow> ('e error + 'p) \<times> ('c, 'p, 'm) store" where
  "build_polygon Polygon h self nodes_by_id =
     (case h self of
        EWay w \<Rightarrow>
          (case coordinates h nodes_by_id (nodes w) of
             Inl e \<Rightarrow> (Inl e, h)
           | Inr cs \<Rightarrow> (library_call (Polygon cs), h))
      | _ \<Rightarrow> (Inl (AttributeError ''nodes''), h))"

subsection \<open>\<open>Relation.build_multipolygon\<close>\<close>

text \<open>The assignment \<open>way.polygon = v\<close> on the object at address \<open>a\<close>.\<close>

definition set_polygon :: "('c, 'p, 'm) store \<Rightarrow> addr \<Rightarrow> 'p \<Rightarrow> ('c, 'p, 'm) store" where
  "set_polygon h a v =
     (case h a of EWay w \<Rightarrow> h(a := EWay (w\<lparr>polygon := Some v\<rparr>)) | _ \<Rightarrow> h)"

text \<open>
  The state of a run is the store together with a log of the addresses on which
  \<open>build_polygon\<close> has been invoked, in order: what a spy on the polygon construction
  path records. The log is the only part of the model that is not in the source.

  \<open>member_loop\<close> is the \<open>for member in self.members\<close> loop, with the list \<open>polygons\<close> as
  accumulator. An exception ends the loop and leaves the store as it is at that moment.
\<close>

type_synonym ('c, 'p, 'm) state = "('c, 'p, 'm) store \<times> addr list"

fun member_loop ::
  "(('c \<times> 'c) list \<Rightarrow> 'e + 'p) \<Rightarrow> (int \<rightharpoonup> addr) \<Rightarrow> member list \<Rightarrow> 'p list
     \<Rightarrow> ('c, 'p, 'm) state \<Rightarrow> ('e error + 'p list) \<times> ('c, 'p, 'm) state" where
  "member_loop Polygon ways [] polygons (h, calls) = (Inr polygons, (h, calls))"
| "member_loop Polygon ways (m # ms) polygons (h, calls) =
     (if mtype m = ''way'' then
        (case ways (ref m) of
           None \<Rightarrow> (Inl (KeyError (ref m)), (h, calls))
         | Some a \<Rightarrow>
             (case h a of
                EWay way \<Rightarrow>
                  (case polygon way of
                     None \<Rightarrow>
                       (case build_polygon Polygon h a ways of
                          (Inl e, h') \<Rightarrow> (Inl e, (h', calls @ [a]))
                        | (Inr p, h') \<Rightarrow>
                            member_loop Polygon ways ms (polygons @ [p])
                              (set_polygon h' a p, calls @ [a]))
                   | Some p \<Rightarrow> member_loop Polygon ways ms (polygons @ [p]) (h, calls))
              | _ \<Rightarrow> (Inl (AttributeError ''polygon''), (h, calls))))
      else member_loop Polygon ways ms polygons (h, calls))"

definition build_multipolygon ::
  "(('c \<times> 'c) list \<Rightarrow> 'e + 'p) \<Rightarrow> ('p list \<Rightarrow> 'e + 'm) \<Rightarrow> ('c, 'p, 'm) state \<Rightarrow> addr
     \<Rightarrow> (int \<rightharpoonup> addr) \<Rightarrow> ('e error + 'm) \<times> ('c, 'p, 'm) state" where
  "build_multipolygon Polygon MultiPolygon s self ways =
     (case fst s self of
        ERelation r \<Rightarrow>
          (case member_loop Polygon ways (members r) [] s of
             (Inl e, s') \<Rightarrow> (Inl e, s')
           | (Inr polygons, s') \<Rightarrow> (library_call (MultiPolygon polygons), s'))
      | _ \<Rightarrow> (Inl (AttributeError ''members''), s))"


section \<open>Notions used to state the properties\<close>

text \<open>
  \<open>extends_caches h h'\<close>: the store \<open>h'\<close> is \<open>h\<close> except that some \<open>Way\<close> objects whose
  \<open>polygon\<close> was \<open>None\<close> now hold one. \<open>cached_polygon\<close> is the polygon cached in the way
  a mapping holds under a key, and \<open>point_at\<close> the \<open>Node\<close> it holds under a key.
  \<open>obtainable\<close> is the polygon \<open>build_multipolygon\<close> can get for a way key: the cached
  one, or else the one \<open>build_polygon\<close> builds from the same mapping.
  \<open>computed Polygon ways h h' a\<close>: the object at \<open>a\<close> was a way without a polygon in
  \<open>h\<close>, and in \<open>h'\<close> it holds the polygon that \<open>build_polygon\<close> builds for it from
  \<open>ways\<close>, or is unchanged when that build fails.
\<close>

definition extends_caches :: "('c, 'p, 'm) store \<Rightarrow> ('c, 'p, 'm) store \<Rightarrow> bool" where
  "extends_caches h h' \<longleftrightarrow>
     (\<forall>a. h' a = h a \<or>
          (\<exists>w p. h a = EWay w \<and> polygon w = None \<and> h' a = EWay (w\<lparr>polygon := Some p\<rparr>)))"

definition cached_polygon :: "('c, 'p, 'm) store \<Rightarrow> (int \<rightharpoonup> addr) \<Rightarrow> int \<Rightarrow> 'p option" where
  "cached_polygon h ways k =
     (case ways k of
        None \<Rightarrow> None
      | Some a \<Rightarrow> (case h a of EWay w \<Rightarrow> polygon w | _ \<Rightarrow> None))"

definition obtainable ::
  "(('c \<times> 'c) list \<Rightarrow> 'e + 'p) \<Rightarrow> ('c, 'p, 'm) store \<Rightarrow> (int \<rightharpoonup> addr) \<Rightarrow> int \<Rightarrow> 'p option" where
  "obtainable Polygon h ways k =
     (case ways k of
        None \<Rightarrow> None
      | Some a \<Rightarrow>
          (case h a of
             EWay w \<Rightarrow>
               (case polygon w of
                  Some p \<Rightarrow> Some p
                | None \<Rightarrow>
                    (case fst (build_polygon Polygon h a ways) of
                       Inr p \<Rightarrow> Some p
                     | Inl e \<Rightarrow> None))
           | _ \<Rightarrow> None))"

definition point_at :: "('c, 'p, 'm) store \<Rightarrow> (int \<rightharpoonup> addr) \<Rightarrow> int \<Rightarrow> 'c node option" where
  "point_at h nodes_by_id n =
     (case nodes_by_id n of
        None \<Rightarrow> None
      | Some a \<Rightarrow> (case h a of ENode p \<Rightarrow> Some p | _ \<Rightarrow> None))"


text \<open>
  \<open>same_but_multipolygon h g\<close>: the stores \<open>h\<close> and \<open>g\<close> hold the same objects, except
  that \<open>Relation\<close> objects may differ in what their \<open>multipolygon\<close> attribute holds.
\<close>

definition same_but_multipolygon ::
  "('c, 'p, 'm) store \<Rightarrow> ('c, 'p, 'm) store \<Rightarrow> bool" where
  "same_but_multipolygon h g \<longleftrightarrow>
     (\<forall>a. g a = h a \<or>
          (\<exists>r x. h a = ERelation r \<and> g a = ERelation (r\<lparr>multipolygon := x\<rparr>)))"

section \<open>Sample data\<close>

text \<open>
  A small data set for concrete instances: three points, the way 10 over the node
  references \<open>[1, 2, 3, 1]\<close>, the way 11, a way whose identifier 1 is also the identifier
  of a point, the way 13 with a reference to a point 4 that no mapping holds, the way 14
  without node references, and four relations. \<open>sample_points\<close> holds the points,
  \<open>sample_ways\<close> and \<open>sample_empty_ways\<close> hold ways only, and \<open>sample_elements\<close> holds
  points and ways under one mapping. \<open>sample_partial\<close> and \<open>sample_cached\<close> are the
  sample store with the polygon of way 10, and of ways 10 and 11, in place.

  The sample constructors stand for the \<open>shapely\<close> ones on the sequences used below. A
  polygon is represented by the coordinate sequence it was built from and a multipolygon
  by the sequence of its polygons. \<open>Polygon\<close> raises \<open>ValueError\<close> for a sequence of one
  or two coordinates and yields the empty polygon for the empty sequence;
  \<open>MultiPolygon\<close> leaves empty polygons out.
\<close>

definition sample_Polygon :: "(real \<times> real) list \<Rightarrow> string + (real \<times> real) list" where
  "sample_Polygon cs = (if cs \<noteq> [] \<and> length cs < 3 then Inl ''ValueError'' else Inr cs)"

definition sample_MultiPolygon ::
  "(real \<times> real) list list \<Rightarrow> string + (real \<times> real) list list" where
  "sample_MultiPolygon ps = Inr (filter (\<lambda>p. p \<noteq> []) ps)"

definition sample_store :: "(real, (real \<times> real) list, (real \<times> real) list list) store" where
  "sample_store =
     (\<lambda>a. ENode (Node_init ''node'' 0 0 0 None))
       (1 := ENode (Node_init ''node'' 1 0 0 None),
        2 := ENode (Node_init ''node'' 2 0 1 None),
        3 := ENode (Node_init ''node'' 3 1 1 None),
        10 := EWay (Way_init ''way'' 10 [1, 2, 3, 1]
                (Some (Mapping.update ''name'' ''Park'' Mapping.empty))),
        11 := EWay (Way_init ''way'' 11 [3, 2, 1, 3] None),
        12 := EWay (Way_init ''way'' 1 [1] None),
        13 := EWay (Way_init ''way'' 13 [1, 4] None),
        14 := EWay (Way_init ''way'' 14 [] None),
        20 := ERelation (Relation_init ''relation'' 20
                [\<lparr>mtype = ''way'', ref = 10, role = ''outer''\<rparr>,
                 \<lparr>mtype = ''node'', ref = 5, role = ''''\<rparr>,
                 \<lparr>mtype = ''way'', ref = 11, role = ''outer''\<rparr>] None),
        21 := ERelation (Relation_init ''relation'' 21
                [\<lparr>mtype = ''way'', ref = 10, role = ''outer''\<rparr>,
                 \<lparr>mtype = ''way'', ref = 99, role = ''outer''\<rparr>] None),
        22 := ERelation (Relation_init ''relation'' 22
                [\<lparr>mtype = ''way'', ref = 1, role = ''outer''\<rparr>,
                 \<lparr>mtype = ''way'', ref = 2, role = ''outer''\<rparr>] None),
        23 := ERelation (Relation_init ''relation'' 23
                [\<lparr>mtype = ''way'', ref = 14, role = ''outer''\<rparr>] None))"

definition sample_points :: "int \<rightharpoonup> addr" where
  "sample_points = [1 \<mapsto> 1, 2 \<mapsto> 2, 3 \<mapsto> 3]"

definition sample_elements :: "int \<rightharpoonup> addr" where
  "sample_elements = [1 \<mapsto> 1, 2 \<mapsto> 2, 3 \<mapsto> 3, 10 \<mapsto> 10, 11 \<mapsto> 11]"

definition sample_ways :: "int \<rightharpoonup> addr" where
  "sample_ways = [1 \<mapsto> 12]"

definition sample_empty_ways :: "int \<rightharpoonup> addr" where
  "sample_empty_ways = [14 \<mapsto> 14]"

definition sample_partial :: "(real, (real \<times> real) list, (real \<times> real) list list) store" where
  "sample_partial =
     sample_store
       (10 := EWay ((Way_init ''way'' 10 [1, 2, 3, 1]
                (Some (Mapping.update ''name'' ''Park'' Mapping.empty)))
                \<lparr>polygon := Some [(0, 0), (0, 1), (1, 1), (0, 0)]\<rparr>))"

definition sample_cached :: "(real, (real \<times> real) list, (real \<times> real) list list) store" where
  "sample_cached =
     sample_partial
       (11 := EWay ((Way_init ''way'' 11 [3, 2, 1, 3] None)
                \<lparr>polygon := Some [(1, 1), (0, 1), (0, 0), (1, 1)]\<rparr>))"

section \<open>The store under the geometry builders\<close>

lemmas sample_defs =
  sample_Polygon_def sample_MultiPolygon_def sample_store_def sample_points_def
  sample_elements_def sample_ways_def sample_empty_ways_def Node_init_def Way_init_def
  Relation_init_def

lemmas run_defs =
  build_multipolygon_def build_polygon_def library_call_def set_polygon_def

lemma build_polygon_snd: "snd (build_polygon P h a M) = h"
  by (simp add: build_polygon_def split: element.split sum.split)

lemma extends_caches_refl: "extends_caches h h"
  by (simp add: extends_caches_def)

lemma extends_caches_set_polygon:
  "h a = EWay w \<Longrightarrow> polygon w = None \<Longrightarrow> extends_caches h (set_polygon h a p)"
  by (auto simp: extends_caches_def set_polygon_def)

lemma extends_caches_trans:
  assumes "extends_caches h h1" and "extends_caches h1 h2"
  shows "extends_caches h h2"
  unfolding extends_caches_def
proof
  fix a
  from assms(1) have 1: "h1 a = h a \<or>
      (\<exists>w p. h a = EWay w \<and> polygon w = None \<and> h1 a = EWay (w\<lparr>polygon := Some p\<rparr>))"
    by (simp add: extends_caches_def)
  from assms(2) have 2: "h2 a = h1 a \<or>
      (\<exists>w p. h1 a = EWay w \<and> polygon w = None \<and> h2 a = EWay (w\<lparr>polygon := Some p\<rparr>))"
    by (simp add: extends_caches_def)
  from 1 show "h2 a = h a \<or>
      (\<exists>w p. h a = EWay w \<and> polygon w = None \<and> h2 a = EWay (w\<lparr>polygon := Some p\<rparr>))"
  proof
    assume "h1 a = h a"
    with 2 show ?thesis by simp
  next
    assume "\<exists>w p. h a = EWay w \<and> polygon w = None \<and> h1 a = EWay (w\<lparr>polygon := Some p\<rparr>)"
    then obtain w p where w: "h a = EWay w" "polygon w = None"
      "h1 a = EWay (w\<lparr>polygon := Some p\<rparr>)" by blast
    from 2 w(3) have "h2 a = h1 a" by auto
    with w show ?thesis by auto
  qed
qed

lemma coordinates_extends:
  "extends_caches h h' \<Longrightarrow> coordinates h' M ns = coordinates h M ns"
proof (induction ns)
  case Nil
  then show ?case by simp
next
  case (Cons n ns)
  show ?case
  proof (cases "M n")
    case None
    then show ?thesis by simp
  next
    case (Some a)
    from Cons.prems have "h' a = h a \<or>
          (\<exists>w p. h a = EWay w \<and> polygon w = None \<and> h' a = EWay (w\<lparr>polygon := Some p\<rparr>))"
      by (simp add: extends_caches_def)
    with Some Cons show ?thesis by (auto split: element.split)
  qed
qed

lemma build_polygon_extends:
  assumes "extends_caches h h'"
  shows "fst (build_polygon P h' a M) = fst (build_polygon P h a M)"
proof -
  from assms have "h' a = h a \<or>
          (\<exists>w p. h a = EWay w \<and> polygon w = None \<and> h' a = EWay (w\<lparr>polygon := Some p\<rparr>))"
    by (simp add: extends_caches_def)
  then show ?thesis
    by (auto simp: build_polygon_def coordinates_extends [OF assms] split: element.split sum.split)
qed

lemma extends_cachesD:
  "extends_caches h h' \<Longrightarrow>
     h' a = h a \<or>
     (\<exists>w p. h a = EWay w \<and> polygon w = None \<and> h' a = EWay (w\<lparr>polygon := Some p\<rparr>))"
  by (simp add: extends_caches_def)

lemma extends_caches_kept:
  assumes "extends_caches h h'" and "h a = EWay w" and "polygon w = Some p"
  shows "h' a = EWay w"
  using extends_cachesD [OF assms(1), of a] assms(2,3) by auto

lemma extends_caches_other:
  assumes "extends_caches h h'" and "\<forall>w. h a \<noteq> EWay w"
  shows "h' a = h a"
  using extends_cachesD [OF assms(1), of a] assms(2) by auto

lemma member_loop_Cons_cases [case_names skip missing other cached failed built]:
  obtains
    "mtype m \<noteq> ''way''"
    "member_loop P W (m # ms) acc (h, c) = member_loop P W ms acc (h, c)"
  | "mtype m = ''way''" "W (ref m) = None"
    "member_loop P W (m # ms) acc (h, c) = (Inl (KeyError (ref m)), (h, c))"
  | a where "mtype m = ''way''" "W (ref m) = Some a" "\<forall>w. h a \<noteq> EWay w"
    "member_loop P W (m # ms) acc (h, c) = (Inl (AttributeError ''polygon''), (h, c))"
  | a w p where "mtype m = ''way''" "W (ref m) = Some a" "h a = EWay w" "polygon w = Some p"
    "member_loop P W (m # ms) acc (h, c) = member_loop P W ms (acc @ [p]) (h, c)"
  | a w e where "mtype m = ''way''" "W (ref m) = Some a" "h a = EWay w" "polygon w = None"
    "build_polygon P h a W = (Inl e, h)"
    "member_loop P W (m # ms) acc (h, c) = (Inl e, (h, c @ [a]))"
  | a w p where "mtype m = ''way''" "W (ref m) = Some a" "h a = EWay w" "polygon w = None"
    "build_polygon P h a W = (Inr p, h)"
    "member_loop P W (m # ms) acc (h, c) =
       member_loop P W ms (acc @ [p]) (set_polygon h a p, c @ [a])"
proof (cases "mtype m = ''way''")
  case False
  then show ?thesis using that(1) by simp
next
  case way: True
  show ?thesis
  proof (cases "W (ref m)")
    case None
    with way show ?thesis using that(2) by simp
  next
    case (Some a)
    show ?thesis
    proof (cases "\<exists>w. h a = EWay w")
      case False
      with way Some show ?thesis using that(3) [of a] by (simp split: element.split)
    next
      case True
      then obtain w where w: "h a = EWay w" ..
      show ?thesis
      proof (cases "polygon w")
        case cached: (Some p)
        with way Some w show ?thesis using that(4) [of a w p] by simp
      next
        case None
        obtain r where r: "build_polygon P h a W = (r, h)"
          using build_polygon_snd [of P h a W] by (cases "build_polygon P h a W") simp
        show ?thesis
        proof (cases r)
          case (Inl e)
          with way Some w None r show ?thesis using that(5) [of a w e] by simp
        next
          case (Inr p)
          with way Some w None r show ?thesis using that(6) [of a w p] by simp
        qed
      qed
    qed
  qed
qed

lemma member_loop_extends:
  "member_loop P W ms acc (h, c) = (res, (h', c')) \<Longrightarrow> extends_caches h h'"
proof (induction ms arbitrary: acc h c)
  case Nil
  then show ?case by (simp add: extends_caches_refl)
next
  case (Cons m ms)
  show ?case
  proof (cases rule: member_loop_Cons_cases [of m P W ms acc h c])
    case skip
    with Cons show ?thesis by simp
  next
    case missing
    with Cons.prems show ?thesis by (simp add: extends_caches_refl)
  next
    case (other a)
    with Cons.prems show ?thesis by (simp add: extends_caches_refl)
  next
    case (cached a w p)
    with Cons show ?thesis by simp
  next
    case (failed a w e)
    with Cons.prems show ?thesis by (simp add: extends_caches_refl)
  next
    case (built a w p)
    with Cons.prems
    have "member_loop P W ms (acc @ [p]) (set_polygon h a p, c @ [a]) = (res, (h', c'))"
      by simp
    from Cons.IH [OF this] extends_caches_set_polygon [of h a w p, OF built(3,4)]
    show ?thesis by (rule extends_caches_trans [rotated])
  qed
qed

lemma member_loop_append:
  "member_loop P W (ms1 @ ms2) acc (h, c) =
     (case member_loop P W ms1 acc (h, c) of
        (Inl e, s) \<Rightarrow> (Inl e, s)
      | (Inr ps, s) \<Rightarrow> member_loop P W ms2 ps s)"
proof (induction ms1 arbitrary: acc h c)
  case Nil
  show ?case by simp
next
  case (Cons m ms1)
  show ?case
    by (cases rule: member_loop_Cons_cases [of m P W ms1 acc h c];
        cases rule: member_loop_Cons_cases [of m P W "ms1 @ ms2" acc h c])
       (simp_all add: Cons.IH)
qed

lemma obtainable_set_polygon:
  assumes w: "h a = EWay w" "polygon w = None" and b: "build_polygon P h a W = (Inr p, h)"
  shows "obtainable P (set_polygon h a p) W k = obtainable P h W k"
proof (cases "W k")
  case None
  then show ?thesis by (simp add: obtainable_def)
next
  case (Some b)
  have ext: "extends_caches h (set_polygon h a p)"
    using w by (rule extends_caches_set_polygon)
  show ?thesis
  proof (cases "b = a")
    case True
    with Some w b show ?thesis by (simp add: obtainable_def set_polygon_def)
  next
    case False
    then have "set_polygon h a p b = h b" using w by (simp add: set_polygon_def)
    with Some show ?thesis
      by (simp add: obtainable_def build_polygon_extends [OF ext]
               split: element.split option.split)
  qed
qed

lemma member_loop_obtainable:
  assumes "\<forall>m\<in>set ms. mtype m = ''way'' \<longrightarrow> obtainable P h W (ref m) \<noteq> None"
  shows "fst (member_loop P W ms acc (h, c)) =
           Inr (acc @ map (\<lambda>m. the (obtainable P h W (ref m)))
                        (filter (\<lambda>m. mtype m = ''way'') ms))"
  using assms
proof (induction ms arbitrary: acc h c)
  case Nil
  show ?case by simp
next
  case (Cons m ms)
  show ?case
  proof (cases rule: member_loop_Cons_cases [of m P W ms acc h c])
    case skip
    with Cons show ?thesis by simp
  next
    case missing
    with Cons.prems show ?thesis by (simp add: obtainable_def)
  next
    case (other a)
    with Cons.prems show ?thesis by (auto simp: obtainable_def split: element.splits)
  next
    case (cached a w p)
    with Cons show ?thesis by (simp add: obtainable_def)
  next
    case (failed a w e)
    with Cons.prems show ?thesis by (simp add: obtainable_def)
  next
    case (built a w p)
    have eq: "obtainable P (set_polygon h a p) W k = obtainable P h W k" for k
      using built(3,4,5) by (rule obtainable_set_polygon)
    have "fst (member_loop P W ms (acc @ [p]) (set_polygon h a p, c @ [a])) =
            Inr ((acc @ [p]) @ map (\<lambda>m. the (obtainable P (set_polygon h a p) W (ref m)))
                        (filter (\<lambda>m. mtype m = ''way'') ms))"
      using Cons.prems by (intro Cons.IH) (simp add: eq)
    moreover have "obtainable P h W (ref m) = Some p"
      using built by (simp add: obtainable_def)
    ultimately show ?thesis using built(1,6) by (simp add: eq)
  qed
qed


lemma cached_polygon_kept:
  assumes "extends_caches h h'" and "cached_polygon h W k = Some p"
  shows "cached_polygon h' W k = Some p"
proof -
  from assms(2) obtain a w where "W k = Some a" "h a = EWay w" "polygon w = Some p"
    by (auto simp: cached_polygon_def split: option.splits element.splits)
  with extends_caches_kept [OF assms(1), of a w p] show ?thesis
    by (simp add: cached_polygon_def)
qed

lemma member_loop_success:
  assumes "member_loop P W ms acc (h, c) = (Inr ps, (h', c'))"
  shows "(\<forall>m\<in>set ms. mtype m = ''way'' \<longrightarrow> cached_polygon h' W (ref m) \<noteq> None) \<and>
         ps = acc @ map (\<lambda>m. the (cached_polygon h' W (ref m)))
                        (filter (\<lambda>m. mtype m = ''way'') ms)"
  using assms
proof (induction ms arbitrary: acc h c)
  case Nil
  then show ?case by simp
next
  case (Cons m ms)
  show ?case
  proof (cases rule: member_loop_Cons_cases [of m P W ms acc h c])
    case skip
    with Cons show ?thesis by simp
  next
    case missing
    with Cons.prems show ?thesis by simp
  next
    case (other a)
    with Cons.prems show ?thesis by simp
  next
    case (cached a w p)
    with Cons.prems have run: "member_loop P W ms (acc @ [p]) (h, c) = (Inr ps, (h', c'))"
      by simp
    have "cached_polygon h W (ref m) = Some p"
      using cached by (simp add: cached_polygon_def)
    then have "cached_polygon h' W (ref m) = Some p"
      using member_loop_extends [OF run] by (rule cached_polygon_kept [rotated])
    with Cons.IH [OF run] cached(1) show ?thesis by simp
  next
    case (failed a w e)
    with Cons.prems show ?thesis by simp
  next
    case (built a w p)
    with Cons.prems
    have run: "member_loop P W ms (acc @ [p]) (set_polygon h a p, c @ [a]) = (Inr ps, (h', c'))"
      by simp
    have "cached_polygon (set_polygon h a p) W (ref m) = Some p"
      using built by (simp add: cached_polygon_def set_polygon_def)
    then have "cached_polygon h' W (ref m) = Some p"
      using member_loop_extends [OF run] by (rule cached_polygon_kept [rotated])
    with Cons.IH [OF run] built(1) show ?thesis by simp
  qed
qed

lemma member_loop_missing:
  assumes "\<exists>m\<in>set ms. mtype m = ''way'' \<and> W (ref m) = None"
  shows "\<exists>e. fst (member_loop P W ms acc (h, c)) = Inl e"
  using assms
proof (induction ms arbitrary: acc h c)
  case Nil
  then show ?case by simp
next
  case (Cons m ms)
  show ?case
  proof (cases rule: member_loop_Cons_cases [of m P W ms acc h c])
    case skip
    with Cons show ?thesis by auto
  next
    case missing
    then show ?thesis by simp
  next
    case (other a)
    then show ?thesis by simp
  next
    case (cached a w p)
    with Cons show ?thesis by auto
  next
    case (failed a w e)
    then show ?thesis by simp
  next
    case (built a w p)
    with Cons show ?thesis by auto
  qed
qed


lemma build_multipolygon_run:
  assumes "h self = ERelation r"
  shows "build_multipolygon P MP (h, c) self W =
           (case member_loop P W (members r) [] (h, c) of
              (Inl e, s') \<Rightarrow> (Inl e, s')
            | (Inr ps, s') \<Rightarrow> (library_call (MP ps), s'))"
  using assms by (simp add: build_multipolygon_def)

lemma build_multipolygon_extends:
  "extends_caches h (fst (snd (build_multipolygon P MP (h, c) self W)))"
proof (cases "h self")
  case (ERelation r)
  obtain res h' c' where run: "member_loop P W (members r) [] (h, c) = (res, (h', c'))"
    by (metis prod.exhaust)
  from member_loop_extends [OF run] run ERelation show ?thesis
    by (cases res) (simp_all add: build_multipolygon_def)
qed (simp_all add: build_multipolygon_def extends_caches_refl)

lemma coordinates_points:
  assumes "\<forall>n\<in>set ns. point_at h M n \<noteq> None"
  shows "coordinates h M ns = Inr (map (\<lambda>n. (lat (the (point_at h M n)), lon (the (point_at h M n)))) ns)"
  using assms
  by (induction ns) (auto simp: point_at_def split: option.splits element.splits)

lemma lookup_is_empty: "Mapping.is_empty d \<Longrightarrow> Mapping.lookup d k = None"
  by (simp add: Mapping.is_empty_def keys_dom_lookup)

lemma name_of_tags_lookup:
  "name_of_tags tags = (case tags of None \<Rightarrow> None | Some d \<Rightarrow> Mapping.lookup d ''name'')"
  by (auto simp: name_of_tags_def lookup_is_empty split: option.split)




lemma member_loop_single_failure:
  assumes "member_loop P W [m] acc (h, c) = (Inl e, s2)"
  shows "member_loop P W (m # ms) acc (h, c) = (Inl e, s2) \<and> fst s2 = h"
  using assms
  by (cases rule: member_loop_Cons_cases [of m P W "[]" acc h c];
      cases rule: member_loop_Cons_cases [of m P W ms acc h c]) auto

lemma coordinates_KeyError:
  "(coordinates h M ns :: 'e error + ('c \<times> 'c) list) = Inl (KeyError k) \<Longrightarrow>
     k \<in> set ns \<and> M k = None"
proof (induction ns)
  case Nil
  then show ?case by simp
next
  case (Cons n ns)
  show ?case
  proof (cases "(coordinates h M ns :: 'e error + ('c \<times> 'c) list) = Inl (KeyError k)")
    case True
    with Cons.IH show ?thesis by simp
  next
    case False
    with Cons.prems show ?thesis
      by (auto split: option.splits element.splits sum.splits)
  qed
qed

lemma coordinates_missing:
  assumes "\<forall>n a. M n = Some a \<longrightarrow> (\<exists>p. h a = ENode p)"
    and "\<exists>n\<in>set ns. M n = None"
  shows "\<exists>k. (coordinates h M ns :: 'e error + ('c \<times> 'c) list) = Inl (KeyError k)"
  using assms(2)
proof (induction ns)
  case Nil
  then show ?case by simp
next
  case (Cons n ns)
  show ?case
  proof (cases "M n")
    case None
    then show ?thesis by simp
  next
    case (Some a)
    with assms(1) obtain p where p: "h a = ENode p" by blast
    from Some Cons.prems have "\<exists>n\<in>set ns. M n = None" by auto
    from Cons.IH [OF this] obtain k
      where "(coordinates h M ns :: 'e error + ('c \<times> 'c) list) = Inl (KeyError k)" ..
    with Some p show ?thesis by simp
  qed
qed

lemma build_polygon_KeyError:
  assumes "h a = EWay w"
  shows "fst (build_polygon (P :: ('c \<times> 'c) list \<Rightarrow> 'e + 'p) h a M) = Inl (KeyError k) \<longleftrightarrow>
           (coordinates h M (nodes w) :: 'e error + ('c \<times> 'c) list) = Inl (KeyError k)"
  using assms
  by (auto simp: build_polygon_def library_call_def split: sum.splits)

lemma sample_run:
  "build_multipolygon sample_Polygon sample_MultiPolygon (sample_store, []) 20 sample_elements =
     (Inr [[(0, 0), (0, 1), (1, 1), (0, 0)], [(1, 1), (0, 1), (0, 0), (1, 1)]],
      (sample_cached, [10, 11]))"
  by (simp add: sample_cached_def sample_partial_def sample_defs run_defs)

lemma sample_prefix:
  "member_loop sample_Polygon sample_elements [\<lparr>mtype = ''way'', ref = 10, role = ''outer''\<rparr>] []
     (sample_store, []) =
   (Inr [[(0, 0), (0, 1), (1, 1), (0, 0)]], (sample_partial, [10]))"
  by (simp add: sample_partial_def sample_defs run_defs)

lemma sample_failure:
  "member_loop sample_Polygon sample_elements [\<lparr>mtype = ''way'', ref = 99, role = ''outer''\<rparr>] ps
     (sample_partial, [10]) =
   (Inl (KeyError 99), (sample_partial, [10]))"
  by (simp add: sample_elements_def)

lemma sample_relation_20:
  "sample_store 20 = ERelation (Relation_init ''relation'' 20
                [\<lparr>mtype = ''way'', ref = 10, role = ''outer''\<rparr>,
                 \<lparr>mtype = ''node'', ref = 5, role = ''''\<rparr>,
                 \<lparr>mtype = ''way'', ref = 11, role = ''outer''\<rparr>] None)"
  by (simp add: sample_store_def)

lemma sample_relation_21:
  "sample_store 21 = ERelation (Relation_init ''relation'' 21
                [\<lparr>mtype = ''way'', ref = 10, role = ''outer''\<rparr>,
                 \<lparr>mtype = ''way'', ref = 99, role = ''outer''\<rparr>] None)"
  by (simp add: sample_store_def)

lemma same_but_multipolygonD:
  "same_but_multipolygon h g \<Longrightarrow>
     g a = h a \<or> (\<exists>r x. h a = ERelation r \<and> g a = ERelation (r\<lparr>multipolygon := x\<rparr>))"
  by (simp add: same_but_multipolygon_def)

lemma same_but_multipolygon_way:
  assumes "same_but_multipolygon h g"
  shows "g a = EWay w \<longleftrightarrow> h a = EWay w"
  using same_but_multipolygonD [OF assms, of a] by auto

lemma same_but_multipolygon_set_polygon:
  assumes "same_but_multipolygon h g"
  shows "same_but_multipolygon (set_polygon h a p) (set_polygon g a p)"
  unfolding same_but_multipolygon_def
proof
  fix b
  from same_but_multipolygonD [OF assms, of a] same_but_multipolygonD [OF assms, of b]
  show "set_polygon g a p b = set_polygon h a p b \<or>
        (\<exists>r x. set_polygon h a p b = ERelation r \<and>
               set_polygon g a p b = ERelation (r\<lparr>multipolygon := x\<rparr>))"
    by (cases "h a") (auto simp: set_polygon_def)
qed

lemma coordinates_same:
  assumes "same_but_multipolygon h g"
  shows "coordinates g M ns = coordinates h M ns"
proof (induction ns)
  case Nil
  show ?case by simp
next
  case (Cons n ns)
  show ?case
  proof (cases "M n")
    case None
    then show ?thesis by simp
  next
    case (Some a)
    from same_but_multipolygonD [OF assms, of a] Some Cons show ?thesis
      by (cases "h a") auto
  qed
qed

lemma build_polygon_same:
  assumes "same_but_multipolygon h g"
  shows "fst (build_polygon P g a M) = fst (build_polygon P h a M)"
  using same_but_multipolygonD [OF assms, of a]
  by (cases "h a") (auto simp: build_polygon_def coordinates_same [OF assms] split: sum.split)

lemma member_loop_same:
  assumes "same_but_multipolygon h g"
  shows "fst (member_loop P W ms acc (g, c)) = fst (member_loop P W ms acc (h, c)) \<and>
         snd (snd (member_loop P W ms acc (g, c))) = snd (snd (member_loop P W ms acc (h, c))) \<and>
         same_but_multipolygon (fst (snd (member_loop P W ms acc (h, c))))
                               (fst (snd (member_loop P W ms acc (g, c))))"
  using assms
proof (induction ms arbitrary: acc h g c)
  case Nil
  then show ?case by simp
next
  case (Cons m ms)
  note same = Cons.prems
  show ?case
  proof (cases rule: member_loop_Cons_cases [of m P W ms acc h c])
    case skip
    with Cons.IH [OF same] show ?thesis by simp
  next
    case missing
    with same show ?thesis by simp
  next
    case (other a)
    from other(3) same_but_multipolygon_way [OF same, of a] have "\<forall>w. g a \<noteq> EWay w" by simp
    with other same show ?thesis by (simp split: element.split)
  next
    case (cached a w p)
    from cached(3) same_but_multipolygon_way [OF same, of a w] have "g a = EWay w" by simp
    with cached Cons.IH [OF same] show ?thesis by simp
  next
    case (failed a w e)
    from failed(3) same_but_multipolygon_way [OF same, of a w] have ga: "g a = EWay w" by simp
    from failed(5) build_polygon_same [OF same, of P a W] build_polygon_snd [of P g a W]
    have "build_polygon P g a W = (Inl e, g)"
      by (cases "build_polygon P g a W") simp
    with failed ga same show ?thesis by simp
  next
    case (built a w p)
    from built(3) same_but_multipolygon_way [OF same, of a w] have ga: "g a = EWay w" by simp
    from built(5) build_polygon_same [OF same, of P a W] build_polygon_snd [of P g a W]
    have "build_polygon P g a W = (Inr p, g)"
      by (cases "build_polygon P g a W") simp
    with built ga Cons.IH [OF same_but_multipolygon_set_polygon [OF same, of a p]]
    show ?thesis by simp
  qed
qed

lemma same_but_multipolygon_upd:
  assumes "h a = ERelation r"
  shows "same_but_multipolygon h (h(a := ERelation (r\<lparr>multipolygon := x\<rparr>)))"
  using assms by (auto simp: same_but_multipolygon_def)

lemma build_multipolygon_same_general:
  assumes "same_but_multipolygon h g"
  shows "fst (build_multipolygon P MP (g, c) self W) = fst (build_multipolygon P MP (h, c) self W) \<and>
         snd (snd (build_multipolygon P MP (g, c) self W)) =
           snd (snd (build_multipolygon P MP (h, c) self W))"
proof (cases "h self")
  case (ERelation r)
  from same_but_multipolygonD [OF assms, of self] ERelation
  obtain r' where g: "g self = ERelation r'" and ms: "members r' = members r" by auto
  obtain r1 h1 c1 where run1: "member_loop P W (members r) [] (h, c) = (r1, (h1, c1))"
    by (metis prod.exhaust)
  obtain r2 h2 c2 where run2: "member_loop P W (members r) [] (g, c) = (r2, (h2, c2))"
    by (metis prod.exhaust)
  from member_loop_same [OF assms, of P W "members r" "[]" c] run1 run2
  have "r2 = r1" "c2 = c1" by simp_all
  with run1 run2 ERelation g ms show ?thesis
    by (cases r1) (simp_all add: build_multipolygon_def)
next
  case (ENode p)
  with same_but_multipolygonD [OF assms, of self] show ?thesis
    by (auto simp: build_multipolygon_def)
next
  case (EWay w)
  with same_but_multipolygonD [OF assms, of self] show ?thesis
    by (auto simp: build_multipolygon_def)
qed

lemma sample_extends: "extends_caches sample_store sample_cached"
  using build_multipolygon_extends
    [of sample_store sample_Polygon sample_MultiPolygon "[]" 20 sample_elements]
  by (simp add: sample_run)

lemma sample_relation_23:
  "sample_store 23 = ERelation (Relation_init ''relation'' 23
                [\<lparr>mtype = ''way'', ref = 14, role = ''outer''\<rparr>] None)"
  by (simp add: sample_store_def)

section \<open>Properties of \<open>Way.build_polygon\<close>\<close>

text \<open>
  C4, as amended: for a way \<open>w\<close> and a points mapping that holds a point under every
  identifier of \<open>w.nodes\<close>, \<open>build_polygon\<close> hands to \<open>Polygon\<close> the pairs
  (latitude, longitude) of the points, one per node reference and in the order of the
  references, and checks nothing itself. When the constructor accepts the sequence the
  call returns the polygon built from it; when the constructor rejects it, its exception
  reaches the caller. The store is unchanged in both cases.
\<close>

theorem build_polygon_coordinates:
  assumes "h self = EWay w"
    and "\<forall>n\<in>set (nodes w). point_at h M n \<noteq> None"
  shows "(\<forall>p. Polygon (map (\<lambda>n. (lat (the (point_at h M n)), lon (the (point_at h M n))))
                          (nodes w)) = Inr p \<longrightarrow>
              build_polygon Polygon h self M = (Inr p, h)) \<and>
         (\<forall>x. Polygon (map (\<lambda>n. (lat (the (point_at h M n)), lon (the (point_at h M n))))
                          (nodes w)) = Inl x \<longrightarrow>
              build_polygon Polygon h self M = (Inl (Raised x), h))"
  using assms by (simp add: build_polygon_def coordinates_points library_call_def)

theorem build_polygon_coordinates_witness:
  "sample_store 10 = EWay (Way_init ''way'' 10 [1, 2, 3, 1]
       (Some (Mapping.update ''name'' ''Park'' Mapping.empty))) \<and>
   list_all (\<lambda>n. point_at sample_store sample_points n \<noteq> None) [1, 2, 3, 1] \<and>
   sample_Polygon (map (\<lambda>n. (lat (the (point_at sample_store sample_points n)),
                             lon (the (point_at sample_store sample_points n)))) [1, 2, 3, 1]) =
     Inr [(0, 0), (0, 1), (1, 1), (0, 0)] \<and>
   build_polygon sample_Polygon sample_store 10 sample_points =
     (Inr [(0, 0), (0, 1), (1, 1), (0, 0)], sample_store)"
proof -
  let ?w = "Way_init ''way'' 10 [1, 2, 3, 1]
       (Some (Mapping.update ''name'' ''Park'' Mapping.empty)) :: (real \<times> real) list way"
  have w: "sample_store 10 = EWay ?w"
    by (simp add: sample_store_def)
  have p: "\<forall>n\<in>set (nodes ?w). point_at sample_store sample_points n \<noteq> None"
    by (simp add: sample_defs point_at_def)
  have c: "sample_Polygon (map (\<lambda>n. (lat (the (point_at sample_store sample_points n)),
                             lon (the (point_at sample_store sample_points n)))) (nodes ?w)) =
     Inr [(0, 0), (0, 1), (1, 1), (0, 0)]"
    by (simp add: sample_defs point_at_def)
  from build_polygon_coordinates
    [where h = sample_store and self = 10 and w = ?w and M = sample_points
       and Polygon = sample_Polygon, OF w p] c
  have "build_polygon sample_Polygon sample_store 10 sample_points =
     (Inr [(0, 0), (0, 1), (1, 1), (0, 0)], sample_store)"
    by blast
  with w p c show ?thesis by (simp add: Way_init_def)
qed

text \<open>
  C4 as stated fails for a way with a single node reference: the point is in the mapping,
  and the constructor rejects the sequence of one coordinate, so that no polygon is
  returned.
\<close>

theorem build_polygon_coordinates_counterexample:
  "sample_store 12 = EWay (Way_init ''way'' 1 [1] None) \<and>
   point_at sample_store sample_points 1 = Some (Node_init ''node'' 1 0 0 None) \<and>
   fst (build_polygon sample_Polygon sample_store 12 sample_points) = Inl (Raised ''ValueError'')"
  by (simp add: sample_defs point_at_def build_polygon_def library_call_def)

text \<open>
  C7: \<open>build_polygon\<close> leaves the store as it found it; in particular the way it is
  called on is the same object afterwards, with the \<open>polygon\<close> attribute it had.
\<close>

theorem build_polygon_frame:
  "snd (build_polygon Polygon h self M) = h \<and>
   (\<forall>w. h self = EWay w \<longrightarrow> snd (build_polygon Polygon h self M) self = EWay w)"
  by (simp add: build_polygon_def split: element.split sum.split)

theorem build_polygon_frame_witness:
  "sample_store 10 = EWay (Way_init ''way'' 10 [1, 2, 3, 1]
       (Some (Mapping.update ''name'' ''Park'' Mapping.empty))) \<and>
   fst (build_polygon sample_Polygon sample_store 10 sample_points) =
     Inr [(0, 0), (0, 1), (1, 1), (0, 0)] \<and>
   snd (build_polygon sample_Polygon sample_store 10 sample_points) 10 =
     EWay (Way_init ''way'' 10 [1, 2, 3, 1]
       (Some (Mapping.update ''name'' ''Park'' Mapping.empty))) \<and>
   polygon (Way_init ''way'' 10 [1, 2, 3, 1]
       (Some (Mapping.update ''name'' ''Park'' Mapping.empty)) :: (real \<times> real) list way) = None"
proof -
  have w: "sample_store 10 = EWay (Way_init ''way'' 10 [1, 2, 3, 1]
       (Some (Mapping.update ''name'' ''Park'' Mapping.empty)))"
    by (simp add: sample_store_def)
  have r: "fst (build_polygon sample_Polygon sample_store 10 sample_points) =
     Inr [(0, 0), (0, 1), (1, 1), (0, 0)]"
    by (simp add: sample_defs build_polygon_def library_call_def)
  from build_polygon_frame [of sample_Polygon sample_store 10 sample_points] w r
  show ?thesis by (simp add: Way_init_def)
qed

text \<open>
  C9, as amended: for a way whose node references are all held by the points mapping,
  two calls of \<open>build_polygon\<close> with the same mapping, the second made in the store the
  first one left or after polygon caches have been filled in between, hand the same
  coordinate sequence to \<open>Polygon\<close> and have the same outcome: the polygon the
  constructor builds from that sequence, or the exception it raises for it. Neither call
  changes the store.
\<close>

theorem build_polygon_twice:
  assumes "h self = EWay w"
    and "\<forall>n\<in>set (nodes w). point_at h M n \<noteq> None"
    and "build_polygon Polygon h self M = (r1, h1)"
    and "extends_caches h1 h2"
    and "build_polygon Polygon h2 self M = (r2, h3)"
  shows "r2 = r1 \<and> h1 = h \<and> h3 = h2 \<and>
         (\<forall>p. Polygon (map (\<lambda>n. (lat (the (point_at h M n)), lon (the (point_at h M n))))
                          (nodes w)) = Inr p \<longrightarrow> r1 = Inr p \<and> r2 = Inr p) \<and>
         (\<forall>x. Polygon (map (\<lambda>n. (lat (the (point_at h M n)), lon (the (point_at h M n))))
                          (nodes w)) = Inl x \<longrightarrow> r1 = Inl (Raised x) \<and> r2 = Inl (Raised x))"
proof -
  from assms(3) build_polygon_snd [of Polygon h self M] have h1: "h1 = h" by simp
  from assms(5) build_polygon_snd [of Polygon h2 self M] have h3: "h3 = h2" by simp
  from assms(4) h1 have "extends_caches h h2" by simp
  from build_polygon_extends [OF this, of Polygon self M] assms(3,5) have r: "r2 = r1" by simp
  from assms(1,2,3)
  have "(\<forall>p. Polygon (map (\<lambda>n. (lat (the (point_at h M n)), lon (the (point_at h M n))))
                          (nodes w)) = Inr p \<longrightarrow> r1 = Inr p) \<and>
        (\<forall>x. Polygon (map (\<lambda>n. (lat (the (point_at h M n)), lon (the (point_at h M n))))
                          (nodes w)) = Inl x \<longrightarrow> r1 = Inl (Raised x))"
    by (auto simp: build_polygon_def coordinates_points library_call_def)
  with r h1 h3 show ?thesis by simp
qed

theorem build_polygon_twice_witness:
  "build_polygon sample_Polygon sample_store 10 sample_points =
     (Inr [(0, 0), (0, 1), (1, 1), (0, 0)], sample_store) \<and>
   cached_polygon sample_store sample_elements 10 = None \<and>
   cached_polygon sample_cached sample_elements 10 = Some [(0, 0), (0, 1), (1, 1), (0, 0)] \<and>
   build_polygon sample_Polygon sample_cached 10 sample_points =
     (Inr [(0, 0), (0, 1), (1, 1), (0, 0)], sample_cached)"
proof -
  let ?w = "Way_init ''way'' 10 [1, 2, 3, 1]
       (Some (Mapping.update ''name'' ''Park'' Mapping.empty)) :: (real \<times> real) list way"
  have w: "sample_store 10 = EWay ?w"
    by (simp add: sample_store_def)
  have p: "\<forall>n\<in>set (nodes ?w). point_at sample_store sample_points n \<noteq> None"
    by (simp add: sample_defs point_at_def)
  have b1: "build_polygon sample_Polygon sample_store 10 sample_points =
     (Inr [(0, 0), (0, 1), (1, 1), (0, 0)], sample_store)"
    by (simp add: sample_defs build_polygon_def library_call_def)
  obtain r2 h3 where b2: "build_polygon sample_Polygon sample_cached 10 sample_points = (r2, h3)"
    by (metis prod.exhaust)
  have c0: "cached_polygon sample_store sample_elements 10 = None"
    by (simp add: cached_polygon_def sample_defs)
  have c1: "cached_polygon sample_cached sample_elements 10 =
      Some [(0, 0), (0, 1), (1, 1), (0, 0)]"
    by (simp add: cached_polygon_def sample_cached_def sample_partial_def sample_defs)
  from build_polygon_twice
    [where h = sample_store and self = 10 and w = ?w and M = sample_points
       and Polygon = sample_Polygon and ?r1.0 = "Inr [(0, 0), (0, 1), (1, 1), (0, 0)]"
       and ?h1.0 = sample_store and ?h2.0 = sample_cached and ?r2.0 = r2 and ?h3.0 = h3,
     OF w p b1 sample_extends b2]
  have "r2 = Inr [(0, 0), (0, 1), (1, 1), (0, 0)]" "h3 = sample_cached" by simp_all
  with b1 b2 c0 c1 show ?thesis by simp
qed

text \<open>
  C9 as stated fails for a way with a single node reference: both calls raise the
  exception of the constructor, and neither returns a polygon.
\<close>

theorem build_polygon_twice_counterexample:
  "sample_store 12 = EWay (Way_init ''way'' 1 [1] None) \<and>
   point_at sample_store sample_points 1 = Some (Node_init ''node'' 1 0 0 None) \<and>
   build_polygon sample_Polygon sample_store 12 sample_points =
     (Inl (Raised ''ValueError''), sample_store) \<and>
   build_polygon sample_Polygon
     (snd (build_polygon sample_Polygon sample_store 12 sample_points)) 12 sample_points =
     (Inl (Raised ''ValueError''), sample_store)"
proof -
  have b: "build_polygon sample_Polygon sample_store 12 sample_points =
     (Inl (Raised ''ValueError''), sample_store)"
    by (simp add: sample_defs build_polygon_def library_call_def)
  then show ?thesis by (simp add: sample_defs point_at_def)
qed

section \<open>Equality\<close>

text \<open>
  C5, as amended: \<open>p == q\<close> holds exactly when \<open>p\<close> and \<open>q\<close> are instances of the same
  class and carry the same identifier; no other attribute takes part.
\<close>

theorem element_eq_class_identity:
  "element_eq p q \<longleftrightarrow> class_name p = class_name q \<and> identity p = identity q"
  by (cases p; cases q) (simp_all add: element_eq_def Node_eq_def Way_eq_def Relation_eq_def)

text \<open>
  C5 as stated fails across classes: the point 1 and the way 1 have equal identifiers and
  are not equal.
\<close>

theorem element_eq_counterexample:
  "\<not> (element_eq (sample_store 1) (sample_store 12) \<longleftrightarrow>
        identity (sample_store 1) = identity (sample_store 12))"
  by (simp add: sample_defs element_eq_def Node_eq_def)

section \<open>Properties of \<open>Relation.build_multipolygon\<close>\<close>

text \<open>
  C1, as amended: when every member of type \<open>way\<close> refers to a way of the mapping whose
  polygon is obtainable (cached already, or built by \<open>build_polygon\<close> from the same
  mapping), \<open>build_multipolygon\<close> hands to \<open>MultiPolygon\<close> one polygon per member of
  type \<open>way\<close>, in member order: members of another type add nothing, a way referred to
  twice appears twice, and with no member of type \<open>way\<close> the sequence is empty. The call
  returns the multipolygon the constructor builds from that sequence, or lets the
  exception of the constructor through; it raises none of its own.
\<close>

theorem build_multipolygon_polygons:
  assumes "h self = ERelation r"
    and "\<forall>m\<in>set (members r). mtype m = ''way'' \<longrightarrow> obtainable Polygon h ways (ref m) \<noteq> None"
  shows "(\<forall>mp. MultiPolygon (map (\<lambda>m. the (obtainable Polygon h ways (ref m)))
                               (filter (\<lambda>m. mtype m = ''way'') (members r))) = Inr mp \<longrightarrow>
               fst (build_multipolygon Polygon MultiPolygon (h, calls) self ways) = Inr mp) \<and>
         (\<forall>x. MultiPolygon (map (\<lambda>m. the (obtainable Polygon h ways (ref m)))
                               (filter (\<lambda>m. mtype m = ''way'') (members r))) = Inl x \<longrightarrow>
               fst (build_multipolygon Polygon MultiPolygon (h, calls) self ways) =
                 Inl (Raised x)) \<and>
         (filter (\<lambda>m. mtype m = ''way'') (members r) = [] \<longrightarrow>
            (\<forall>mp. MultiPolygon [] = Inr mp \<longrightarrow>
               fst (build_multipolygon Polygon MultiPolygon (h, calls) self ways) = Inr mp))"
proof -
  obtain res s' where run: "member_loop Polygon ways (members r) [] (h, calls) = (res, s')"
    by (metis prod.exhaust)
  from member_loop_obtainable [OF assms(2), of "[]" calls] run
  have "res = Inr (map (\<lambda>m. the (obtainable Polygon h ways (ref m)))
                  (filter (\<lambda>m. mtype m = ''way'') (members r)))"
    by simp
  with run have "fst (build_multipolygon Polygon MultiPolygon (h, calls) self ways) =
           library_call (MultiPolygon
             (map (\<lambda>m. the (obtainable Polygon h ways (ref m)))
                  (filter (\<lambda>m. mtype m = ''way'') (members r))))"
    by (simp add: build_multipolygon_run [of h self r, OF assms(1)])
  then show ?thesis by (auto simp: library_call_def)
qed

theorem build_multipolygon_polygons_witness:
  "obtainable sample_Polygon sample_store sample_elements 10 = Some [(0, 0), (0, 1), (1, 1), (0, 0)] \<and>
   obtainable sample_Polygon sample_store sample_elements 11 = Some [(1, 1), (0, 1), (0, 0), (1, 1)] \<and>
   sample_MultiPolygon [[(0, 0), (0, 1), (1, 1), (0, 0)], [(1, 1), (0, 1), (0, 0), (1, 1)]] =
     Inr [[(0, 0), (0, 1), (1, 1), (0, 0)], [(1, 1), (0, 1), (0, 0), (1, 1)]] \<and>
   fst (build_multipolygon sample_Polygon sample_MultiPolygon (sample_store, []) 20 sample_elements) =
     Inr [[(0, 0), (0, 1), (1, 1), (0, 0)], [(1, 1), (0, 1), (0, 0), (1, 1)]]"
proof -
  let ?r = "Relation_init ''relation'' 20
                [\<lparr>mtype = ''way'', ref = 10, role = ''outer''\<rparr>,
                 \<lparr>mtype = ''node'', ref = 5, role = ''''\<rparr>,
                 \<lparr>mtype = ''way'', ref = 11, role = ''outer''\<rparr>] None :: (real \<times> real) list list relation"
  have r: "sample_store 20 = ERelation ?r"
    by (simp add: sample_store_def)
  have o10: "obtainable sample_Polygon sample_store sample_elements 10 =
      Some [(0, 0), (0, 1), (1, 1), (0, 0)]"
    by (simp add: obtainable_def sample_defs run_defs)
  have o11: "obtainable sample_Polygon sample_store sample_elements 11 =
      Some [(1, 1), (0, 1), (0, 0), (1, 1)]"
    by (simp add: obtainable_def sample_defs run_defs)
  have ob: "\<forall>m\<in>set (members ?r). mtype m = ''way'' \<longrightarrow>
      obtainable sample_Polygon sample_store sample_elements (ref m) \<noteq> None"
    by (simp add: Relation_init_def o10 o11)
  have mp: "sample_MultiPolygon
       (map (\<lambda>m. the (obtainable sample_Polygon sample_store sample_elements (ref m)))
            (filter (\<lambda>m. mtype m = ''way'') (members ?r))) =
     Inr [[(0, 0), (0, 1), (1, 1), (0, 0)], [(1, 1), (0, 1), (0, 0), (1, 1)]]"
    by (simp add: Relation_init_def o10 o11 sample_MultiPolygon_def)
  from build_multipolygon_polygons
    [where h = sample_store and self = 20 and r = ?r and Polygon = sample_Polygon
       and ways = sample_elements and MultiPolygon = sample_MultiPolygon and calls = "[]",
     OF r ob] mp
  have "fst (build_multipolygon sample_Polygon sample_MultiPolygon (sample_store, []) 20
               sample_elements) =
     Inr [[(0, 0), (0, 1), (1, 1), (0, 0)], [(1, 1), (0, 1), (0, 0), (1, 1)]]"
    by blast
  with o10 o11 show ?thesis by (simp add: sample_MultiPolygon_def)
qed

text \<open>
  C1 as stated fails for a relation whose only member is a way without node references:
  the polygon of the way is obtainable, it is empty, and the multipolygon built from it
  contains no polygon.
\<close>

theorem build_multipolygon_polygons_counterexample:
  "sample_store 23 = ERelation (Relation_init ''relation'' 23
                [\<lparr>mtype = ''way'', ref = 14, role = ''outer''\<rparr>] None) \<and>
   obtainable sample_Polygon sample_store sample_empty_ways 14 = Some [] \<and>
   fst (build_multipolygon sample_Polygon sample_MultiPolygon (sample_store, []) 23
          sample_empty_ways) = Inr []"
  by (simp add: obtainable_def sample_defs run_defs)



text \<open>
  C10: when the loop has processed the members \<open>before\<close> and the next member \<open>m\<close>
  fails, \<open>build_multipolygon\<close> fails with that exception and leaves the store as the
  members \<open>before\<close> made it: every way among them keeps the polygon cached for it.
\<close>

theorem build_multipolygon_not_atomic:
  assumes "h self = ERelation r"
    and "members r = before @ m # after"
    and "member_loop Polygon ways before [] (h, calls) = (Inr ps, (h1, calls1))"
    and "member_loop Polygon ways [m] ps (h1, calls1) = (Inl e, s2)"
  shows "build_multipolygon Polygon MultiPolygon (h, calls) self ways = (Inl e, s2) \<and>
         fst s2 = h1 \<and>
         (\<forall>m'\<in>set before. mtype m' = ''way'' \<longrightarrow> cached_polygon h1 ways (ref m') \<noteq> None)"
proof -
  from member_loop_single_failure [OF assms(4), of after]
  have step: "member_loop Polygon ways (m # after) ps (h1, calls1) = (Inl e, s2)"
    and s2: "fst s2 = h1"
    by simp_all
  have "member_loop Polygon ways (members r) [] (h, calls) = (Inl e, s2)"
    by (simp only: assms(2) member_loop_append assms(3) step prod.case sum.case)
  then have "build_multipolygon Polygon MultiPolygon (h, calls) self ways = (Inl e, s2)"
    by (simp add: build_multipolygon_run [of h self r, OF assms(1)])
  with s2 member_loop_success [OF assms(3)] show ?thesis by simp
qed

theorem build_multipolygon_not_atomic_witness:
  "cached_polygon sample_store sample_elements 10 = None \<and>
   build_multipolygon sample_Polygon sample_MultiPolygon (sample_store, []) 21 sample_elements =
     (Inl (KeyError 99), (sample_partial, [10])) \<and>
   cached_polygon sample_partial sample_elements 10 = Some [(0, 0), (0, 1), (1, 1), (0, 0)]"
proof -
  let ?r = "Relation_init ''relation'' 21
                [\<lparr>mtype = ''way'', ref = 10, role = ''outer''\<rparr>,
                 \<lparr>mtype = ''way'', ref = 99, role = ''outer''\<rparr>] None :: (real \<times> real) list list relation"
  have m: "members ?r = [\<lparr>mtype = ''way'', ref = 10, role = ''outer''\<rparr>] @
      \<lparr>mtype = ''way'', ref = 99, role = ''outer''\<rparr> # []"
    by (simp add: Relation_init_def)
  have "cached_polygon sample_store sample_elements 10 = None"
    by (simp add: cached_polygon_def sample_defs)
  moreover have "cached_polygon sample_partial sample_elements 10 =
      Some [(0, 0), (0, 1), (1, 1), (0, 0)]"
    by (simp add: cached_polygon_def sample_partial_def sample_defs)
  ultimately show ?thesis
    using build_multipolygon_not_atomic
      [of sample_store 21 ?r _ _ _ sample_Polygon sample_elements "[]" _ sample_partial "[10]"
          "KeyError 99" "(sample_partial, [10])" sample_MultiPolygon,
       OF sample_relation_21 m sample_prefix sample_failure]
    by simp
qed

section \<open>Missing references\<close>

text \<open>
  C3, as amended. On a points mapping, \<open>build_polygon\<close> fails with \<open>KeyError\<close> exactly
  when some node reference of the way is not a key of the mapping, and the exception
  carries such a reference. \<open>build_multipolygon\<close> fails whenever a member of type \<open>way\<close>
  refers to an identifier that is not a key of the mapping; the exception is the
  \<open>KeyError\<close> of that lookup when the members before it were processed without failure.
\<close>

theorem missing_reference:
  "(h a = EWay w \<and> (\<forall>n b. M n = Some b \<longrightarrow> (\<exists>p. h b = ENode p)) \<longrightarrow>
      ((\<exists>k. fst (build_polygon (Polygon :: ('c \<times> 'c) list \<Rightarrow> 'e + 'p) h a M) =
               Inl (KeyError k)) \<longleftrightarrow>
       (\<exists>n\<in>set (nodes w). M n = None)) \<and>
      (\<forall>k. fst (build_polygon Polygon h a M) = Inl (KeyError k) \<longrightarrow>
           k \<in> set (nodes w) \<and> M k = None)) \<and>
   (h self = ERelation r \<and> (\<exists>m\<in>set (members r). mtype m = ''way'' \<and> ways (ref m) = None) \<longrightarrow>
      (\<exists>e. fst (build_multipolygon Polygon MultiPolygon (h, calls) self ways) = Inl e)) \<and>
   (h self = ERelation r \<and> members r = before @ m # after \<and>
    member_loop Polygon ways before [] (h, calls) = (Inr ps, (h1, calls1)) \<and>
    mtype m = ''way'' \<and> ways (ref m) = None \<longrightarrow>
      build_multipolygon Polygon MultiPolygon (h, calls) self ways =
        (Inl (KeyError (ref m)), (h1, calls1)))"
proof (intro conjI impI; (elim conjE)?)
  assume w: "h a = EWay w" and pts: "\<forall>n b. M n = Some b \<longrightarrow> (\<exists>p. h b = ENode p)"
  show "(\<exists>k. fst (build_polygon Polygon h a M) = Inl (KeyError k)) \<longleftrightarrow>
        (\<exists>n\<in>set (nodes w). M n = None)"
    using coordinates_KeyError [of h M "nodes w", where ?'e = 'e]
      coordinates_missing [OF pts, of "nodes w", where ?'e = 'e]
    by (auto simp: build_polygon_KeyError [of h a w, OF w])
  show "\<forall>k. fst (build_polygon Polygon h a M) = Inl (KeyError k) \<longrightarrow>
           k \<in> set (nodes w) \<and> M k = None"
    using coordinates_KeyError [of h M "nodes w", where ?'e = 'e]
    by (auto simp: build_polygon_KeyError [of h a w, OF w])
next
  assume r: "h self = ERelation r"
    and "\<exists>m\<in>set (members r). mtype m = ''way'' \<and> ways (ref m) = None"
  from member_loop_missing [OF this(2), of Polygon "[]" h calls]
  obtain e where e: "fst (member_loop Polygon ways (members r) [] (h, calls)) = Inl e" ..
  obtain res s' where run: "member_loop Polygon ways (members r) [] (h, calls) = (res, s')"
    by (metis prod.exhaust)
  with e show "\<exists>e. fst (build_multipolygon Polygon MultiPolygon (h, calls) self ways) = Inl e"
    by (simp add: build_multipolygon_run [of h self r, OF r])
next
  assume r: "h self = ERelation r" and ms: "members r = before @ m # after"
    and pre: "member_loop Polygon ways before [] (h, calls) = (Inr ps, (h1, calls1))"
    and m: "mtype m = ''way''" "ways (ref m) = None"
  from m have "member_loop Polygon ways (m # after) ps (h1, calls1) =
      (Inl (KeyError (ref m)), (h1, calls1))"
    by simp
  then have "member_loop Polygon ways (members r) [] (h, calls) =
      (Inl (KeyError (ref m)), (h1, calls1))"
    by (simp only: ms member_loop_append pre prod.case sum.case)
  then show "build_multipolygon Polygon MultiPolygon (h, calls) self ways =
        (Inl (KeyError (ref m)), (h1, calls1))"
    by (simp add: build_multipolygon_run [of h self r, OF r])
qed

theorem missing_reference_witness:
  "fst (build_polygon sample_Polygon sample_store 13 sample_points) = Inl (KeyError 4) \<and>
   sample_points 4 = None \<and>
   sample_elements 99 = None \<and>
   build_multipolygon sample_Polygon sample_MultiPolygon (sample_store, []) 21 sample_elements =
     (Inl (KeyError 99), (sample_partial, [10]))"
proof -
  let ?w = "Way_init ''way'' 13 [1, 4] None :: (real \<times> real) list way"
  let ?r = "Relation_init ''relation'' 21
                [\<lparr>mtype = ''way'', ref = 10, role = ''outer''\<rparr>,
                 \<lparr>mtype = ''way'', ref = 99, role = ''outer''\<rparr>] None :: (real \<times> real) list list relation"
  have w: "sample_store 13 = EWay ?w" by (simp add: sample_store_def)
  have pts: "\<forall>n b. sample_points n = Some b \<longrightarrow> (\<exists>p. sample_store b = ENode p)"
    by (auto simp: sample_points_def sample_store_def split: if_splits)
  have ms: "members ?r = [\<lparr>mtype = ''way'', ref = 10, role = ''outer''\<rparr>] @
      \<lparr>mtype = ''way'', ref = 99, role = ''outer''\<rparr> # []"
    by (simp add: Relation_init_def)
  have absent: "sample_elements 99 = None" "sample_points 4 = None"
    by (simp_all add: sample_elements_def sample_points_def)
  have missing: "\<exists>m\<in>set (members ?r). mtype m = ''way'' \<and> sample_elements (ref m) = None"
    by (simp add: Relation_init_def absent)
  have k: "fst (build_polygon sample_Polygon sample_store 13 sample_points) = Inl (KeyError 4)"
    by (simp add: sample_defs run_defs)
  from missing_reference
    [of sample_store 13 ?w sample_points sample_Polygon 21 ?r sample_elements
        sample_MultiPolygon "[]" "[\<lparr>mtype = ''way'', ref = 10, role = ''outer''\<rparr>]"
        "\<lparr>mtype = ''way'', ref = 99, role = ''outer''\<rparr>" "[]" _ sample_partial "[10]"]
    w pts sample_relation_21 ms missing sample_prefix absent k
  show ?thesis by simp
qed

text \<open>
  C3 as stated fails when an earlier member fails in another way: relation 22 refers to
  the ways 1 and 2, the mapping holds way 1 only, and the call fails with
  \<open>AttributeError\<close>, because the node reference 1 of way 1 finds way 1 itself in the
  mapping of ways.
\<close>

theorem missing_reference_counterexample:
  "sample_store 22 = ERelation (Relation_init ''relation'' 22
                [\<lparr>mtype = ''way'', ref = 1, role = ''outer''\<rparr>,
                 \<lparr>mtype = ''way'', ref = 2, role = ''outer''\<rparr>] None) \<and>
   sample_ways 2 = None \<and>
   fst (build_multipolygon sample_Polygon sample_MultiPolygon (sample_store, []) 22 sample_ways) =
     Inl (AttributeError ''lat'')"
  by (simp add: sample_defs run_defs)

section \<open>The attributes \<open>multipolygon\<close> and \<open>name\<close>\<close>

text \<open>
  C6, as amended: \<open>multipolygon\<close> is \<open>None\<close> after construction, and
  \<open>build_multipolygon\<close> neither writes nor reads it. It leaves every \<open>Relation\<close> object
  of the store as it was, whether the call succeeds or fails, and what it returns and
  which polygons it builds do not depend on what the \<open>multipolygon\<close> attributes hold.
\<close>

theorem multipolygon_never_stored:
  "multipolygon (Relation_init type ident ms tags :: 'm relation) = None \<and>
   (\<forall>a r. (h :: ('c, 'p, 'm) store) a = ERelation r \<longrightarrow>
      fst (snd (build_multipolygon Polygon MultiPolygon (h, calls) self ways)) a = ERelation r) \<and>
   (same_but_multipolygon h g \<longrightarrow>
      fst (build_multipolygon Polygon MultiPolygon (g, calls) self ways) =
        fst (build_multipolygon Polygon MultiPolygon (h, calls) self ways) \<and>
      snd (snd (build_multipolygon Polygon MultiPolygon (g, calls) self ways)) =
        snd (snd (build_multipolygon Polygon MultiPolygon (h, calls) self ways)))"
proof -
  have "fst (snd (build_multipolygon Polygon MultiPolygon (h, calls) self ways)) a = ERelation r"
    if "h a = ERelation r" for a r
    using extends_caches_other [OF build_multipolygon_extends, of h a Polygon MultiPolygon calls self ways]
      that by simp
  then show ?thesis
    using build_multipolygon_same_general [of h g Polygon MultiPolygon calls self ways]
    by (simp add: Relation_init_def)
qed

theorem multipolygon_never_stored_witness:
  "fst (build_multipolygon sample_Polygon sample_MultiPolygon (sample_store, []) 20 sample_elements) =
     Inr [[(0, 0), (0, 1), (1, 1), (0, 0)], [(1, 1), (0, 1), (0, 0), (1, 1)]] \<and>
   fst (snd (build_multipolygon sample_Polygon sample_MultiPolygon (sample_store, []) 20
               sample_elements)) 20 = sample_store 20 \<and>
   fst (build_multipolygon sample_Polygon sample_MultiPolygon
          (sample_store (20 := ERelation ((Relation_init ''relation'' 20
                [\<lparr>mtype = ''way'', ref = 10, role = ''outer''\<rparr>,
                 \<lparr>mtype = ''node'', ref = 5, role = ''''\<rparr>,
                 \<lparr>mtype = ''way'', ref = 11, role = ''outer''\<rparr>] None)
                \<lparr>multipolygon := Some [[(5, 5), (5, 6), (6, 6), (5, 5)]]\<rparr>)), [])
          20 sample_elements) =
     Inr [[(0, 0), (0, 1), (1, 1), (0, 0)], [(1, 1), (0, 1), (0, 0), (1, 1)]] \<and>
   snd (snd (build_multipolygon sample_Polygon sample_MultiPolygon
          (sample_store (20 := ERelation ((Relation_init ''relation'' 20
                [\<lparr>mtype = ''way'', ref = 10, role = ''outer''\<rparr>,
                 \<lparr>mtype = ''node'', ref = 5, role = ''''\<rparr>,
                 \<lparr>mtype = ''way'', ref = 11, role = ''outer''\<rparr>] None)
                \<lparr>multipolygon := Some [[(5, 5), (5, 6), (6, 6), (5, 5)]]\<rparr>)), [])
          20 sample_elements)) = [10, 11]"
proof -
  let ?r = "Relation_init ''relation'' 20
                [\<lparr>mtype = ''way'', ref = 10, role = ''outer''\<rparr>,
                 \<lparr>mtype = ''node'', ref = 5, role = ''''\<rparr>,
                 \<lparr>mtype = ''way'', ref = 11, role = ''outer''\<rparr>] None
              :: (real \<times> real) list list relation"
  let ?g = "sample_store (20 := ERelation (?r\<lparr>multipolygon := Some [[(5, 5), (5, 6), (6, 6), (5, 5)]]\<rparr>))"
  have same: "same_but_multipolygon sample_store ?g"
    using same_but_multipolygon_upd [of sample_store 20 ?r] sample_relation_20 by simp
  note inst = multipolygon_never_stored
    [where h = sample_store and g = ?g and Polygon = sample_Polygon
       and MultiPolygon = sample_MultiPolygon and calls = "[]" and self = 20
       and ways = sample_elements]
  from inst have "\<forall>a r. sample_store a = ERelation r \<longrightarrow>
      fst (snd (build_multipolygon sample_Polygon sample_MultiPolygon (sample_store, []) 20
                  sample_elements)) a = ERelation r"
    by simp
  with sample_relation_20
  have kept: "fst (snd (build_multipolygon sample_Polygon sample_MultiPolygon (sample_store, []) 20
                  sample_elements)) 20 = sample_store 20"
    by simp
  from inst same
  have "fst (build_multipolygon sample_Polygon sample_MultiPolygon (?g, []) 20 sample_elements) =
          fst (build_multipolygon sample_Polygon sample_MultiPolygon (sample_store, []) 20
                 sample_elements) \<and>
        snd (snd (build_multipolygon sample_Polygon sample_MultiPolygon (?g, []) 20
                    sample_elements)) =
          snd (snd (build_multipolygon sample_Polygon sample_MultiPolygon (sample_store, []) 20
                      sample_elements))"
    by simp
  with kept show ?thesis by (simp add: sample_run)
qed

text \<open>
  C6 as stated fails: after a successful \<open>build_multipolygon\<close> on relation 20 its
  \<open>multipolygon\<close> is still \<open>None\<close>.
\<close>

theorem multipolygon_populated_counterexample:
  "fst (build_multipolygon sample_Polygon sample_MultiPolygon (sample_store, []) 20 sample_elements) =
     Inr [[(0, 0), (0, 1), (1, 1), (0, 0)], [(1, 1), (0, 1), (0, 0), (1, 1)]] \<and>
   fst (snd (build_multipolygon sample_Polygon sample_MultiPolygon (sample_store, []) 20
               sample_elements)) 20 =
     ERelation (Relation_init ''relation'' 20
                [\<lparr>mtype = ''way'', ref = 10, role = ''outer''\<rparr>,
                 \<lparr>mtype = ''node'', ref = 5, role = ''''\<rparr>,
                 \<lparr>mtype = ''way'', ref = 11, role = ''outer''\<rparr>] None) \<and>
   multipolygon (Relation_init ''relation'' 20
                [\<lparr>mtype = ''way'', ref = 10, role = ''outer''\<rparr>,
                 \<lparr>mtype = ''node'', ref = 5, role = ''''\<rparr>,
                 \<lparr>mtype = ''way'', ref = 11, role = ''outer''\<rparr>] None
                 :: (real \<times> real) list list relation) = None"
  by (simp add: sample_run sample_cached_def sample_partial_def sample_relation_20)
     (simp add: Relation_init_def)

text \<open>
  C8: the \<open>name\<close> of a way or relation is set at construction to the value of the
  \<open>name\<close> key of its tags, and to \<open>None\<close> when there are no tags or no such key;
  neither geometry builder changes the \<open>name\<close> of an object.
\<close>

theorem derived_name:
  "way_name (Way_init type ident ns tags :: 'p way) =
     (case tags of None \<Rightarrow> None | Some d \<Rightarrow> Mapping.lookup d ''name'') \<and>
   rel_name (Relation_init type ident ms tags :: 'm relation) =
     (case tags of None \<Rightarrow> None | Some d \<Rightarrow> Mapping.lookup d ''name'') \<and>
   snd (build_polygon Polygon (h :: ('c, 'p, 'm) store) a M) = h \<and>
   (\<forall>b w. h b = EWay w \<longrightarrow>
      (\<exists>w'. fst (snd (build_multipolygon Polygon MultiPolygon (h, calls) self ways)) b = EWay w' \<and>
            way_name w' = way_name w)) \<and>
   (\<forall>b r. h b = ERelation r \<longrightarrow>
      fst (snd (build_multipolygon Polygon MultiPolygon (h, calls) self ways)) b = ERelation r)"
proof -
  let ?h' = "fst (snd (build_multipolygon Polygon MultiPolygon (h, calls) self ways))"
  have ext: "extends_caches h ?h'" by (rule build_multipolygon_extends)
  have "\<exists>w'. ?h' b = EWay w' \<and> way_name w' = way_name w" if "h b = EWay w" for b w
    using extends_cachesD [OF ext, of b] that by auto
  moreover have "?h' b = ERelation r" if "h b = ERelation r" for b r
    using extends_caches_other [OF ext, of b] that by simp
  ultimately show ?thesis
    by (simp add: Way_init_def Relation_init_def name_of_tags_lookup build_polygon_snd)
qed

theorem derived_name_witness:
  "way_name (Way_init ''way'' 10 [1, 2, 3, 1]
       (Some (Mapping.update ''name'' ''Park'' Mapping.empty)) :: (real \<times> real) list way) =
     Some ''Park'' \<and>
   way_name (Way_init ''way'' 10 [1, 2, 3, 1]
       (Some (Mapping.update ''highway'' ''path'' Mapping.empty)) :: (real \<times> real) list way) = None \<and>
   rel_name (Relation_init ''relation'' 20 [] None :: (real \<times> real) list list relation) = None \<and>
   (\<exists>w'. fst (snd (build_multipolygon sample_Polygon sample_MultiPolygon (sample_store, []) 20
                     sample_elements)) 10 = EWay w' \<and> way_name w' = Some ''Park'')"
proof -
  have w: "sample_store 10 = EWay (Way_init ''way'' 10 [1, 2, 3, 1]
       (Some (Mapping.update ''name'' ''Park'' Mapping.empty)))"
    by (simp add: sample_store_def)
  have n: "way_name (Way_init ''way'' 10 [1, 2, 3, 1]
       (Some (Mapping.update ''highway'' ''path'' Mapping.empty)) :: (real \<times> real) list way) = None"
    "rel_name (Relation_init ''relation'' 20 [] None :: (real \<times> real) list list relation) = None"
    by (simp_all add: Way_init_def Relation_init_def name_of_tags_lookup)
  note inst = derived_name
    [where type = "''way''" and ident = 10 and ns = "[1, 2, 3, 1]" and ms = "[]"
       and tags = "Some (Mapping.update ''name'' ''Park'' Mapping.empty)"
       and h = sample_store and Polygon = sample_Polygon and MultiPolygon = sample_MultiPolygon
       and calls = "[]" and self = 20 and ways = sample_elements and a = 10
       and M = sample_points]
  from inst have park: "way_name (Way_init ''way'' 10 [1, 2, 3, 1]
       (Some (Mapping.update ''name'' ''Park'' Mapping.empty)) :: (real \<times> real) list way) =
     Some ''Park''"
    by simp
  from inst have "\<forall>b w. sample_store b = EWay w \<longrightarrow>
      (\<exists>w'. fst (snd (build_multipolygon sample_Polygon sample_MultiPolygon (sample_store, []) 20
                        sample_elements)) b = EWay w' \<and> way_name w' = way_name w)"
    by simp
  with w park have "\<exists>w'. fst (snd (build_multipolygon sample_Polygon sample_MultiPolygon
       (sample_store, []) 20 sample_elements)) 10 = EWay w' \<and> way_name w' = Some ''Park''"
    by metis
  with n park show ?thesis by simp
qed

end
